theory Spec2Isabelle
  imports Main "HOL-Library.Multiset"
begin

section \<open>Python values, as \<^verbatim>\<open>notify.py\<close> handles them\<close>

text \<open>
  The notifier (\<^verbatim>\<open>skills/agent-notifier/notify.py\<close>) decodes its standard input with
  \<^verbatim>\<open>json.loads\<close> and then inspects the decoded value with \<^verbatim>\<open>in\<close>,
  \<^verbatim>\<open>[]\<close> and \<^verbatim>\<open>.get\<close>. The decoded value is any JSON value, so the model
  has all of them. A Python \<^verbatim>\<open>str\<close> is modelled by the bytes of its UTF-8 encoding
  (concatenation, equality and emptiness are the same on both sides). A Python
  \<^verbatim>\<open>float\<close> is carried as the text \<^verbatim>\<open>str()\<close> prints for it: the program never
  computes with one. A \<^verbatim>\<open>dict\<close> is an association list read with \<open>map_of\<close>.

  Outside the model: what the interpreter itself may raise (\<^verbatim>\<open>RecursionError\<close>,
  \<^verbatim>\<open>MemoryError\<close>, \<^verbatim>\<open>KeyboardInterrupt\<close>), the traceback it prints for an
  uncaught exception, and case mapping of letters beyond ASCII.
\<close>

datatype json =
    JNull
  | JBool bool
  | JInt int
  | JFloat string
  | JStr string
  | JList "json list"
  | JObj "(string \<times> json) list"

text \<open>The exceptions that can leave the functions modelled here.\<close>

datatype error = TypeError | AttributeError | KeyError | JSONDecodeError | OSError

type_synonym 'a result = "error + 'a"

definition and_then :: "'a result \<Rightarrow> ('a \<Rightarrow> 'b result) \<Rightarrow> 'b result" where
  "and_then r f = (case r of Inl e \<Rightarrow> Inl e | Inr v \<Rightarrow> f v)"

text \<open>
  The standard-library functions the program calls but does not define are parameters:
  \<^verbatim>\<open>json.loads\<close> (\<open>None\<close> is \<^verbatim>\<open>JSONDecodeError\<close>, the one exception the
  program expects of it), \<^verbatim>\<open>json.dumps(_, ensure_ascii=False)\<close>, and \<^verbatim>\<open>repr\<close> of a
  list or dict. Every theorem below that is stated for a library \<open>lib\<close> holds whatever
  these three functions are.
\<close>

record pylib =
  json_loads :: "string \<Rightarrow> json option"
  json_dumps :: "json \<Rightarrow> string"
  py_repr :: "json \<Rightarrow> string"

subsection \<open>Truth value, \<^verbatim>\<open>in\<close>, subscript, \<^verbatim>\<open>.get\<close>\<close>

fun truthy :: "json \<Rightarrow> bool" where
  "truthy JNull = False"
| "truthy (JBool b) = b"
| "truthy (JInt i) = (i \<noteq> 0)"
| "truthy (JFloat r) = (r \<noteq> ''0.0'' \<and> r \<noteq> ''-0.0'')"
| "truthy (JStr s) = (s \<noteq> [])"
| "truthy (JList xs) = (xs \<noteq> [])"
| "truthy (JObj kvs) = (kvs \<noteq> [])"

text \<open>\<^verbatim>\<open>isinstance(v, dict)\<close>, and whether \<open>v\<close> can be a dict key (a list and a dict
  cannot).\<close>

fun is_dict :: "json \<Rightarrow> bool" where
  "is_dict (JObj kvs) = True"
| "is_dict _ = False"

fun hashable :: "json \<Rightarrow> bool" where
  "hashable (JList xs) = False"
| "hashable (JObj kvs) = False"
| "hashable _ = True"

fun starts_with :: "string \<Rightarrow> string \<Rightarrow> bool" where
  "starts_with [] s = True"
| "starts_with (p # ps) [] = False"
| "starts_with (p # ps) (c # cs) = (p = c \<and> starts_with ps cs)"

fun contains :: "string \<Rightarrow> string \<Rightarrow> bool" where
  "contains p [] = (p = [])"
| "contains p (c # cs) = (starts_with p (c # cs) \<or> contains p cs)"

text \<open>
  \<^verbatim>\<open>key in data\<close> for a string literal \<open>key\<close>: key membership on a dict, substring
  test on a str, element test on a list, \<^verbatim>\<open>TypeError\<close> on anything else.
\<close>

fun py_in :: "string \<Rightarrow> json \<Rightarrow> bool result" where
  "py_in k (JObj kvs) = Inr (map_of kvs k \<noteq> None)"
| "py_in k (JStr s) = Inr (contains k s)"
| "py_in k (JList xs) = Inr (List.member xs (JStr k))"
| "py_in k _ = Inl TypeError"

definition py_not_in :: "string \<Rightarrow> json \<Rightarrow> bool result" where
  "py_not_in k d = and_then (py_in k d) (\<lambda>b. Inr (\<not> b))"

text \<open>\<^verbatim>\<open>a and b\<close>, \<^verbatim>\<open>a or b\<close> on conditions that may raise: \<open>b\<close> is not evaluated when
  \<open>a\<close> decides.\<close>

definition py_and :: "bool result \<Rightarrow> bool result \<Rightarrow> bool result" where
  "py_and a b = and_then a (\<lambda>x. if x then b else Inr False)"

definition py_or :: "bool result \<Rightarrow> bool result \<Rightarrow> bool result" where
  "py_or a b = and_then a (\<lambda>x. if x then Inr True else b)"

text \<open>\<^verbatim>\<open>data[key]\<close> for a string \<open>key\<close>.\<close>

fun subscript :: "json \<Rightarrow> string \<Rightarrow> json result" where
  "subscript (JObj kvs) k = (case map_of kvs k of None \<Rightarrow> Inl KeyError | Some v \<Rightarrow> Inr v)"
| "subscript _ k = Inl TypeError"

text \<open>\<^verbatim>\<open>data.get(key, default)\<close>: only a dict has the method.\<close>

fun py_get :: "json \<Rightarrow> string \<Rightarrow> json \<Rightarrow> json result" where
  "py_get (JObj kvs) k d = Inr (case map_of kvs k of None \<Rightarrow> d | Some v \<Rightarrow> v)"
| "py_get _ k d = Inl AttributeError"

text \<open>
  \<^verbatim>\<open>table.get(key, default)\<close> on a dict literal of the program, whose keys are strings:
  a list or dict key is unhashable (\<^verbatim>\<open>TypeError\<close>), any other non-string key is
  simply not found.
\<close>

fun dict_get :: "(string \<times> 'a) list \<Rightarrow> json \<Rightarrow> 'a \<Rightarrow> 'a result" where
  "dict_get tbl (JStr k) d = Inr (case map_of tbl k of None \<Rightarrow> d | Some v \<Rightarrow> v)"
| "dict_get tbl (JList xs) d = Inl TypeError"
| "dict_get tbl (JObj kvs) d = Inl TypeError"
| "dict_get tbl _ d = Inr d"

subsection \<open>Strings\<close>

definition digit :: "nat \<Rightarrow> char" where
  "digit d = char_of (48 + d)"

function show_nat :: "nat \<Rightarrow> string" where
  "show_nat n = (if n < 10 then [digit n] else show_nat (n div 10) @ [digit (n mod 10)])"
  by pat_completeness auto
termination
  by (relation "measure id") auto

declare show_nat.simps [simp del]

definition show_int :: "int \<Rightarrow> string" where
  "show_int i = (if i < 0 then ''-'' @ show_nat (nat (- i)) else show_nat (nat i))"

text \<open>What an f-string prints for a value: \<^verbatim>\<open>str(v)\<close>.\<close>

fun py_str :: "pylib \<Rightarrow> json \<Rightarrow> string" where
  "py_str lib (JStr s) = s"
| "py_str lib JNull = ''None''"
| "py_str lib (JBool b) = (if b then ''True'' else ''False'')"
| "py_str lib (JInt i) = show_int i"
| "py_str lib (JFloat r) = r"
| "py_str lib v = py_repr lib v"

definition apos :: string where
  "apos = [CHR 0x27]"

text \<open>\<^verbatim>\<open>sep.join(xs)\<close>.\<close>

fun join :: "string \<Rightarrow> string list \<Rightarrow> string" where
  "join sep [] = []"
| "join sep [x] = x"
| "join sep (x # y # ys) = x @ sep @ join sep (y # ys)"

text \<open>\<^verbatim>\<open>s.lower()\<close>, on the ASCII letters.\<close>

definition lower_char :: "char \<Rightarrow> char" where
  "lower_char c =
     (if (65::nat) \<le> of_char c \<and> of_char c \<le> (90::nat) then char_of (of_char c + (32::nat)) else c)"

definition lower :: "string \<Rightarrow> string" where
  "lower s = map lower_char s"

text \<open>\<^verbatim>\<open>os.path.basename\<close> (POSIX): what follows the last slash.\<close>

definition basename :: "string \<Rightarrow> string" where
  "basename p = rev (takeWhile (\<lambda>c. c \<noteq> CHR ''/'') (rev p))"

text \<open>
  \<^verbatim>\<open>s.strip()\<close>: the characters Python's \<^verbatim>\<open>str.isspace\<close> accepts, each in UTF-8,
  are removed from both ends.
\<close>

definition whitespace :: "string list" where
  "whitespace =
    [[CHR 0x09], [CHR 0x0A], [CHR 0x0B], [CHR 0x0C], [CHR 0x0D],
     [CHR 0x1C], [CHR 0x1D], [CHR 0x1E], [CHR 0x1F], [CHR 0x20],
     [CHR 0xC2, CHR 0x85], [CHR 0xC2, CHR 0xA0], [CHR 0xE1, CHR 0x9A, CHR 0x80],
     [CHR 0xE2, CHR 0x80, CHR 0x80], [CHR 0xE2, CHR 0x80, CHR 0x81],
     [CHR 0xE2, CHR 0x80, CHR 0x82], [CHR 0xE2, CHR 0x80, CHR 0x83],
     [CHR 0xE2, CHR 0x80, CHR 0x84], [CHR 0xE2, CHR 0x80, CHR 0x85],
     [CHR 0xE2, CHR 0x80, CHR 0x86], [CHR 0xE2, CHR 0x80, CHR 0x87],
     [CHR 0xE2, CHR 0x80, CHR 0x88], [CHR 0xE2, CHR 0x80, CHR 0x89],
     [CHR 0xE2, CHR 0x80, CHR 0x8A], [CHR 0xE2, CHR 0x80, CHR 0xA8],
     [CHR 0xE2, CHR 0x80, CHR 0xA9], [CHR 0xE2, CHR 0x80, CHR 0xAF],
     [CHR 0xE2, CHR 0x81, CHR 0x9F], [CHR 0xE3, CHR 0x80, CHR 0x80]]"

definition leading_space :: "string list \<Rightarrow> string \<Rightarrow> nat" where
  "leading_space ws s = (case find (\<lambda>w. starts_with w s) ws of None \<Rightarrow> 0 | Some w \<Rightarrow> length w)"

lemma starts_with_length: "starts_with w s \<Longrightarrow> length w \<le> length s"
  by (induction w s rule: starts_with.induct) auto

lemma leading_space_le: "leading_space ws s \<le> length s"
  by (auto simp: leading_space_def find_Some_iff starts_with_length split: option.splits)

function lstrip_by :: "string list \<Rightarrow> string \<Rightarrow> string" where
  "lstrip_by ws s =
     (if leading_space ws s = 0 then s else lstrip_by ws (drop (leading_space ws s) s))"
  by pat_completeness auto
termination
proof (relation "measure (\<lambda>(ws, s). length s)")
  show "wf (measure (\<lambda>(ws, s). length s))" by simp
next
  fix ws :: "string list" and s :: string
  assume "leading_space ws s \<noteq> 0"
  moreover have "leading_space ws s \<le> length s" by (rule leading_space_le)
  ultimately show "((ws, drop (leading_space ws s) s), (ws, s)) \<in> measure (\<lambda>(ws, s). length s)"
    by simp
qed

declare lstrip_by.simps [simp del]

definition strip :: "string \<Rightarrow> string" where
  "strip s = rev (lstrip_by (map rev whitespace) (rev (lstrip_by whitespace s)))"

section \<open>Input parsing\<close>

text \<open>
  \<^verbatim>\<open>_read_stdin\<close>: the empty string when standard input is a terminal or reading it
  raises, its whole text otherwise.
\<close>

datatype stdin = Tty | ReadFails | Piped string

fun read_stdin :: "stdin \<Rightarrow> string" where
  "read_stdin Tty = []"
| "read_stdin ReadFails = []"
| "read_stdin (Piped text) = text"

text \<open>
  The event is the dict \<^verbatim>\<open>parse_input\<close> returns. Its \<^verbatim>\<open>event\<close> and
  \<^verbatim>\<open>message\<close> entries hold whatever value the payload supplied.
\<close>

type_synonym event_info = "(string \<times> json) list"

definition mk_event :: "string \<Rightarrow> json \<Rightarrow> json \<Rightarrow> event_info" where
  "mk_event p e m = [(''platform'', JStr p), (''event'', e), (''message'', m)]"

definition idle_text :: string where
  "idle_text = [CHR 0xE2, CHR 0x9C, CHR 0x85] @ '' Task completed ''
     @ [CHR 0xE2, CHR 0x80, CHR 0x94] @ '' waiting for your input''"

definition permission_text :: string where
  "permission_text = [CHR 0xF0, CHR 0x9F, CHR 0x94, CHR 0x90] @ '' Permission required''"

text \<open>Lines 78--87: the payload has a \<^verbatim>\<open>notification_type\<close>.\<close>

definition claude_code_event :: "json \<Rightarrow> event_info result" where
  "claude_code_event data =
     and_then (subscript data ''notification_type'') (\<lambda>ntype.
     and_then (py_get data ''message'' (JStr [])) (\<lambda>msg.
       let event_msg =
             (if ntype = JStr ''idle_prompt'' then JStr idle_text
              else if ntype = JStr ''permission_prompt'' then JStr permission_text
              else if truthy msg then msg else ntype)
       in Inr (mk_event ''claude_code'' ntype event_msg)))"

definition reason_messages :: "(string \<times> string) list" where
  "reason_messages =
    [(''complete'', ''Task completed''),
     (''error'', ''Session ended with error''),
     (''abort'', ''Session aborted''),
     (''timeout'', ''Session timed out''),
     (''user_exit'', ''User exited session'')]"

text \<open>Lines 91--101: \<^verbatim>\<open>reason\<close> without \<^verbatim>\<open>toolName\<close>.\<close>

definition session_end_event :: "pylib \<Rightarrow> json \<Rightarrow> event_info result" where
  "session_end_event lib data =
     and_then (subscript data ''reason'') (\<lambda>reason.
     and_then (dict_get reason_messages reason (''Session ended ('' @ py_str lib reason @ '')''))
       (\<lambda>event_msg.
       Inr (mk_event ''copilot_cli'' (JStr ''sessionEnd'') (JStr event_msg))))"

definition result_messages :: "string \<Rightarrow> (string \<times> string) list" where
  "result_messages tool =
    [(''success'', ''Tool '' @ apos @ tool @ apos @ '' completed successfully''),
     (''failure'', ''Tool '' @ apos @ tool @ apos @ '' failed''),
     (''denied'', ''Tool '' @ apos @ tool @ apos @ '' was denied'')]"

text \<open>Line 107: \<^verbatim>\<open>result.get("resultType", "") if isinstance(result, dict) else ""\<close>.\<close>

definition result_type_of :: "json \<Rightarrow> json result" where
  "result_type_of result =
     (if is_dict result then py_get result ''resultType'' (JStr []) else Inr (JStr []))"

text \<open>Lines 104--114: \<^verbatim>\<open>toolName\<close> and \<^verbatim>\<open>toolResult\<close>.\<close>

definition post_tool_use_event :: "pylib \<Rightarrow> json \<Rightarrow> event_info result" where
  "post_tool_use_event lib data =
     and_then (subscript data ''toolName'') (\<lambda>tool.
     and_then (subscript data ''toolResult'') (\<lambda>result.
     and_then (result_type_of result) (\<lambda>result_type.
     and_then (dict_get (result_messages (py_str lib tool)) result_type
                 (''Tool '' @ apos @ py_str lib tool @ apos @ '' finished'')) (\<lambda>event_msg.
       Inr (mk_event ''copilot_cli'' (JStr ''postToolUse'') (JStr event_msg))))))"

text \<open>Lines 117--120: \<^verbatim>\<open>source\<close> without \<^verbatim>\<open>toolName\<close> and
  \<^verbatim>\<open>notification_type\<close>.\<close>

definition session_start_event :: "pylib \<Rightarrow> json \<Rightarrow> event_info result" where
  "session_start_event lib data =
     and_then (subscript data ''source'') (\<lambda>source.
       Inr (mk_event ''copilot_cli'' (JStr ''sessionStart'')
              (JStr (''Session started ('' @ py_str lib source @ '')''))))"

text \<open>\<^verbatim>\<open>os.path.basename(file)\<close> accepts a str among the JSON values.\<close>

fun path_basename :: "json \<Rightarrow> string result" where
  "path_basename (JStr p) = Inr (basename p)"
| "path_basename _ = Inl TypeError"

text \<open>\<^verbatim>\<open>"cursor" in agent.lower()\<close>: only a str has \<^verbatim>\<open>lower\<close>.\<close>

fun names_cursor :: "json \<Rightarrow> bool result" where
  "names_cursor (JStr a) = Inr (contains ''cursor'' (lower a))"
| "names_cursor _ = Inl AttributeError"

text \<open>Lines 123--138: a non-empty \<^verbatim>\<open>hook_event_name\<close>.\<close>

definition hook_event_message :: "pylib \<Rightarrow> json \<Rightarrow> json \<Rightarrow> json result" where
  "hook_event_message lib data hook_event =
     and_then (py_get data ''status'' (JStr [])) (\<lambda>status.
       if hook_event = JStr ''sessionEnd'' \<or> hook_event = JStr ''stop'' then
         Inr (JStr (if status = JStr ''completed'' then ''Task completed'' else ''Session ended''))
       else if hook_event = JStr ''postToolUse'' then
         and_then (py_get data ''tool_name'' (JStr ''tool'')) (\<lambda>tool.
           Inr (JStr (''Tool '' @ apos @ py_str lib tool @ apos @ '' finished'')))
       else if hook_event = JStr ''afterFileEdit'' then
         and_then (py_get data ''file_path'' (JStr ''file'')) (\<lambda>file.
         and_then (path_basename file) (\<lambda>base.
           Inr (JStr (''Edited '' @ base))))
       else Inr hook_event)"

definition hook_event_event :: "pylib \<Rightarrow> json \<Rightarrow> json \<Rightarrow> event_info result" where
  "hook_event_event lib data hook_event =
     and_then (hook_event_message lib data hook_event) (\<lambda>event_msg.
     and_then (py_get data ''agent'' (JStr [])) (\<lambda>agent.
     and_then (names_cursor agent) (\<lambda>is_cursor.
       Inr (mk_event (if is_cursor then ''cursor'' else ''copilot_cli'') hook_event event_msg))))"

text \<open>Lines 141--153: Codex, then the fallback.\<close>

definition codex_event :: "json \<Rightarrow> event_info result" where
  "codex_event data =
     and_then (py_get data ''message'' (JStr ''Agent turn completed'')) (\<lambda>msg.
       Inr (mk_event ''codex'' (JStr ''agent-turn-complete'') msg))"

definition fallback_event :: "pylib \<Rightarrow> json \<Rightarrow> event_info result" where
  "fallback_event lib data =
     and_then (py_get data ''message'' (JStr (json_dumps lib data))) (\<lambda>msg.
       Inr (mk_event ''unknown'' (JStr ''notification'') msg))"

text \<open>Lines 77--153 of \<^verbatim>\<open>parse_input\<close>: the detectors, in the order of the source.\<close>

definition normalize_data :: "pylib \<Rightarrow> json \<Rightarrow> event_info result" where
  "normalize_data lib data =
     and_then (py_in ''notification_type'' data) (\<lambda>is_claude.
     if is_claude then claude_code_event data else
     and_then (py_and (py_in ''reason'' data) (py_not_in ''toolName'' data)) (\<lambda>is_end.
     if is_end then session_end_event lib data else
     and_then (py_and (py_in ''toolName'' data) (py_in ''toolResult'' data)) (\<lambda>is_tool.
     if is_tool then post_tool_use_event lib data else
     and_then (py_and (py_in ''source'' data)
                (py_and (py_not_in ''toolName'' data) (py_not_in ''notification_type'' data)))
       (\<lambda>is_start.
     if is_start then session_start_event lib data else
     and_then (py_get data ''hook_event_name'' (JStr [])) (\<lambda>hook_event.
     if truthy hook_event then hook_event_event lib data hook_event else
     and_then (py_or (py_in ''agent-turn-complete'' data)
                (and_then (py_get data ''type'' JNull)
                   (\<lambda>t. Inr (t = JStr ''agent-turn-complete'')))) (\<lambda>is_codex.
     if is_codex then codex_event data else fallback_event lib data))))))"

text \<open>
  \<^verbatim>\<open>parse_input\<close>, lines 53--153. \<open>argv\<close> is \<^verbatim>\<open>sys.argv\<close>, the script's own name
  first.
\<close>

definition parse_input :: "pylib \<Rightarrow> stdin \<Rightarrow> string list \<Rightarrow> event_info result" where
  "parse_input lib inp argv =
     (let raw = strip (read_stdin inp) in
      if raw = [] \<and> length argv > 1 then
        Inr (mk_event ''aider'' (JStr ''notification'') (JStr (join '' '' (tl argv))))
      else if raw = [] then
        Inr (mk_event ''unknown'' (JStr ''notification'') (JStr []))
      else
        (case json_loads lib raw of
           None \<Rightarrow> Inr (mk_event ''unknown'' (JStr ''notification'') (JStr raw))
         | Some data \<Rightarrow> normalize_data lib data))"

section \<open>Configuration\<close>

text \<open>
  What \<^verbatim>\<open>load_config\<close> finds at one path of \<^verbatim>\<open>CONFIG_SEARCH_PATHS\<close>: no file
  (\<^verbatim>\<open>os.path.isfile\<close> is false), a file that cannot be opened or read, or a file
  with its text.
\<close>

datatype file_state = NoFile | Unreadable | Content string

definition default_config :: json where
  "default_config =
     JObj [(''channels'',
       JObj [(''sound'', JObj [(''enabled'', JBool True),
                               (''file'', JStr ''/System/Library/Sounds/Glass.aiff'')]),
             (''macos_notification'', JObj [(''enabled'', JBool True)])])]"

text \<open>
  \<^verbatim>\<open>load_config\<close>, lines 160--172. The argument lists the states of the search paths,
  in their order; \<^verbatim>\<open>json.load\<close> decodes the text of the first file there is, and
  nothing catches what it raises.
\<close>

fun load_config :: "pylib \<Rightarrow> file_state list \<Rightarrow> json result" where
  "load_config lib [] = Inr default_config"
| "load_config lib (NoFile # paths) = load_config lib paths"
| "load_config lib (Unreadable # paths) = Inl OSError"
| "load_config lib (Content text # paths) =
     (case json_loads lib text of None \<Rightarrow> Inl JSONDecodeError | Some config \<Rightarrow> Inr config)"

section \<open>Formatting\<close>

definition PLATFORM_LABELS :: "(string \<times> json) list" where
  "PLATFORM_LABELS =
    [(''claude_code'', JStr ''Claude Code''),
     (''copilot_cli'', JStr ''GitHub Copilot CLI''),
     (''cursor'', JStr ''Cursor''),
     (''codex'', JStr ''Codex''),
     (''aider'', JStr ''Aider''),
     (''unknown'', JStr ''AI Agent'')]"

definition title_prefix :: string where
  "title_prefix = ''Agent Notifier '' @ [CHR 0xE2, CHR 0x80, CHR 0x94] @ '' ''"

text \<open>\<^verbatim>\<open>_format_title\<close>, lines 179--181: the label of the platform, the platform
  itself when the table has no label for it.\<close>

definition format_title :: "pylib \<Rightarrow> event_info \<Rightarrow> string result" where
  "format_title lib event_info =
     and_then (subscript (JObj event_info) ''platform'') (\<lambda>platform.
     and_then (dict_get PLATFORM_LABELS platform platform) (\<lambda>label.
       Inr (title_prefix @ py_str lib label)))"

text \<open>\<^verbatim>\<open>_format_body\<close>, lines 184--185: \<^verbatim>\<open>message or event\<close>.\<close>

definition format_body :: "event_info \<Rightarrow> json result" where
  "format_body event_info =
     and_then (subscript (JObj event_info) ''message'') (\<lambda>message.
       if truthy message then Inr message else subscript (JObj event_info) ''event'')"

section \<open>Dispatch\<close>

definition CHANNEL_SENDERS :: "string list" where
  "CHANNEL_SENDERS = [''sound'', ''macos_notification'', ''telegram'', ''email'', ''slack'', ''discord'']"

text \<open>\<^verbatim>\<open>d.items()\<close>: each key once, with the value \<open>map_of\<close> reads.\<close>

fun dict_items :: "(string \<times> json) list \<Rightarrow> (string \<times> json) list" where
  "dict_items [] = []"
| "dict_items ((k, v) # kvs) = (k, v) # dict_items (filter (\<lambda>kv. fst kv \<noteq> k) kvs)"

fun py_items :: "json \<Rightarrow> (string \<times> json) list result" where
  "py_items (JObj kvs) = Inr (dict_items kvs)"
| "py_items _ = Inl AttributeError"

text \<open>The comprehension of lines 308--312.\<close>

fun select_enabled :: "(string \<times> json) list \<Rightarrow> (string \<times> json) list result" where
  "select_enabled [] = Inr []"
| "select_enabled ((name, cfg) # rest) =
     and_then (py_get cfg ''enabled'' JNull) (\<lambda>en.
     and_then (select_enabled rest) (\<lambda>chosen.
       Inr (if truthy en \<and> name \<in> set CHANNEL_SENDERS then (name, cfg) # chosen else chosen)))"

text \<open>
  A sender (\<^verbatim>\<open>send_sound\<close>, \<^verbatim>\<open>send_telegram\<close>, ...) talks to the outside world;
  here it is a function that, for a channel configuration and an event, returns or raises
  an \<^verbatim>\<open>Exception\<close> whose text (\<^verbatim>\<open>str(exc)\<close>) is given. For such a function \<open>send\<close>,
  \<open>send name\<close> is \<^verbatim>\<open>CHANNEL_SENDERS[name]\<close>.
\<close>

datatype outcome = Returned | Raised string

type_synonym senders = "string \<Rightarrow> json \<Rightarrow> event_info \<Rightarrow> outcome"

text \<open>
  What a run leaves behind: the lines on standard output and on standard error, and the
  channels whose sender ran to its end.
\<close>

record run_log =
  stdout :: "string list"
  stderr :: "string list"
  completed :: "string list"

definition empty_log :: run_log where
  "empty_log = \<lparr>stdout = [], stderr = [], completed = []\<rparr>"

text \<open>\<^verbatim>\<open>_dispatch\<close>, lines 317--322.\<close>

definition dispatch_one :: "senders \<Rightarrow> event_info \<Rightarrow> string \<times> json \<Rightarrow> run_log \<Rightarrow> run_log" where
  "dispatch_one send event_info name_cfg log =
     (case send (fst name_cfg) (snd name_cfg) event_info of
        Returned \<Rightarrow> log\<lparr>completed := completed log @ [fst name_cfg]\<rparr>
      | Raised exc \<Rightarrow>
          log\<lparr>stderr := stderr log @ [''[agent-notifier] '' @ fst name_cfg @ '' failed: '' @ exc]\<rparr>)"

text \<open>
  Lines 324--325: the pool runs one task per enabled channel and the \<^verbatim>\<open>with\<close> block
  waits for all of them. The tasks share nothing but the error stream, so a run is the
  tasks in the order the pool's threads happen to take them: \<open>tasks\<close>, some permutation
  of the enabled channels.
\<close>

fun dispatch :: "senders \<Rightarrow> event_info \<Rightarrow> (string \<times> json) list \<Rightarrow> run_log \<Rightarrow> run_log" where
  "dispatch send event_info [] log = log"
| "dispatch send event_info (t # tasks) log =
     dispatch send event_info tasks (dispatch_one send event_info t log)"

text \<open>
  \<^verbatim>\<open>main\<close>, lines 303--327, with what it returns or raises and the log of the run.
  \<open>sched\<close> is the pool's scheduling: it permutes the enabled channels.
\<close>

definition main ::
  "pylib \<Rightarrow> senders \<Rightarrow> ((string \<times> json) list \<Rightarrow> (string \<times> json) list) \<Rightarrow>
   stdin \<Rightarrow> string list \<Rightarrow> file_state list \<Rightarrow> int result \<times> run_log" where
  "main lib send sched inp argv paths =
     (case parse_input lib inp argv of
        Inl e \<Rightarrow> (Inl e, empty_log)
      | Inr event_info \<Rightarrow>
         (case load_config lib paths of
            Inl e \<Rightarrow> (Inl e, empty_log)
          | Inr config \<Rightarrow>
             (case py_get config ''channels'' (JObj []) of
                Inl e \<Rightarrow> (Inl e, empty_log)
              | Inr channels \<Rightarrow>
                 (case and_then (py_items channels) select_enabled of
                    Inl e \<Rightarrow> (Inl e, empty_log)
                  | Inr enabled \<Rightarrow>
                      if enabled = [] then (Inr 0, empty_log)
                      else (Inr 0, dispatch send event_info (sched enabled) empty_log)))))"

text \<open>\<^verbatim>\<open>sys.exit(main())\<close>: the status is what \<^verbatim>\<open>main\<close> returns, and 1 when an
  exception leaves it.\<close>

fun exit_status :: "int result \<Rightarrow> int" where
  "exit_status (Inr n) = n"
| "exit_status (Inl e) = 1"

text \<open>
  For evaluating the program at concrete inputs: a library given by the documents that
  occur, each with the value \<^verbatim>\<open>json.loads\<close> decodes it to; any other text is not
  JSON for it. The two printers are not exercised at those inputs.
\<close>

definition quoted :: "string \<Rightarrow> string" where
  "quoted s = [CHR 0x22] @ s @ [CHR 0x22]"

definition table_lib :: "(string \<times> json) list \<Rightarrow> pylib" where
  "table_lib docs = \<lparr>json_loads = map_of docs, json_dumps = (\<lambda>v. []), py_repr = (\<lambda>v. [])\<rparr>"

subsection \<open>Documents and senders used as concrete inputs\<close>

text \<open>
  Each document is the text on standard input, paired with the value \<^verbatim>\<open>json.loads\<close>
  returns for it. \<open>failing_sound\<close> is a set of senders of which the one of the
  \<^verbatim>\<open>sound\<close> channel raises (the player is not installed) and the others return.
\<close>

definition opencode_doc :: string where
  "opencode_doc = ''{'' @ quoted ''platform'' @ '':'' @ quoted ''opencode'' @ '','' @
     quoted ''event_type'' @ '':'' @ quoted ''session.idle'' @ '','' @
     quoted ''message'' @ '':'' @ quoted ''Session completed'' @ ''}''"

definition opencode_payload :: json where
  "opencode_payload =
     JObj [(''platform'', JStr ''opencode''), (''event_type'', JStr ''session.idle''),
           (''message'', JStr ''Session completed'')]"

definition empty_type_doc :: string where
  "empty_type_doc = ''{'' @ quoted ''notification_type'' @ '':'' @ quoted [] @ ''}''"

definition empty_type_payload :: json where
  "empty_type_payload = JObj [(''notification_type'', JStr [])]"

definition idle_done_doc :: string where
  "idle_done_doc = ''{'' @ quoted ''notification_type'' @ '':'' @ quoted ''idle_prompt'' @ '','' @
     quoted ''message'' @ '':'' @ quoted ''Done'' @ ''}''"

definition idle_done_payload :: "(string \<times> json) list" where
  "idle_done_payload = [(''notification_type'', JStr ''idle_prompt''), (''message'', JStr ''Done'')]"

definition custom_type_doc :: string where
  "custom_type_doc = ''{'' @ quoted ''notification_type'' @ '':'' @ quoted ''auth_success'' @ '','' @
     quoted ''message'' @ '':'' @ quoted ''Signed in'' @ ''}''"

definition custom_type_payload :: "(string \<times> json) list" where
  "custom_type_payload =
     [(''notification_type'', JStr ''auth_success''), (''message'', JStr ''Signed in'')]"

definition tool_denied_doc :: string where
  "tool_denied_doc = ''{'' @ quoted ''toolName'' @ '':'' @ quoted ''bash'' @ '','' @
     quoted ''toolResult'' @ '':{'' @ quoted ''resultType'' @ '':'' @ quoted ''denied'' @ ''},'' @
     quoted ''reason'' @ '':'' @ quoted ''complete'' @ '','' @
     quoted ''source'' @ '':'' @ quoted ''terminal'' @ ''}''"

definition tool_denied_payload :: "(string \<times> json) list" where
  "tool_denied_payload =
     [(''toolName'', JStr ''bash''), (''toolResult'', JObj [(''resultType'', JStr ''denied'')]),
      (''reason'', JStr ''complete''), (''source'', JStr ''terminal'')]"

definition typed_tool_doc :: string where
  "typed_tool_doc = ''{'' @ quoted ''notification_type'' @ '':'' @ quoted ''idle_prompt'' @ '','' @
     quoted ''toolName'' @ '':'' @ quoted ''bash'' @ '','' @
     quoted ''toolResult'' @ '':{'' @ quoted ''resultType'' @ '':'' @ quoted ''success'' @ ''}}''"

definition typed_tool_payload :: "(string \<times> json) list" where
  "typed_tool_payload =
     [(''notification_type'', JStr ''idle_prompt''), (''toolName'', JStr ''bash''),
      (''toolResult'', JObj [(''resultType'', JStr ''success'')])]"

definition reason_doc :: string where
  "reason_doc = ''{'' @ quoted ''reason'' @ '':'' @ quoted ''complete'' @ ''}''"

definition reason_payload :: "(string \<times> json) list" where
  "reason_payload = [(''reason'', JStr ''complete'')]"

definition typed_reason_doc :: string where
  "typed_reason_doc = ''{'' @ quoted ''notification_type'' @ '':'' @ quoted ''permission_prompt''
     @ '','' @ quoted ''reason'' @ '':'' @ quoted ''complete'' @ ''}''"

definition typed_reason_payload :: "(string \<times> json) list" where
  "typed_reason_payload =
     [(''notification_type'', JStr ''permission_prompt''), (''reason'', JStr ''complete'')]"

definition failing_sound :: senders where
  "failing_sound name cfg event_info =
     (if name = ''sound'' then Raised ''[Errno 2] No such file or directory: afplay''
      else Returned)"

section \<open>Basic facts\<close>

lemma and_then_simps [simp]:
  "and_then (Inl e) f = Inl e" "and_then (Inr x) f = f x"
  by (simp_all add: and_then_def)

lemma and_then_Inr: "and_then r f = Inr v \<longleftrightarrow> (\<exists>x. r = Inr x \<and> f x = Inr v)"
  by (cases r) simp_all

lemma dict_get_hashable:
  "hashable k \<Longrightarrow> \<exists>v. dict_get tbl k d = Inr v"
  by (cases k) simp_all

lemma result_type_of_total: "\<exists>rt. result_type_of result = Inr rt"
  by (cases result) (simp_all add: result_type_of_def)

lemma strip_Nil [simp]: "strip [] = []"
  by code_simp

lemma strip_idle_done_doc: "strip idle_done_doc = idle_done_doc"
  by code_simp

lemma strip_custom_type_doc: "strip custom_type_doc = custom_type_doc"
  by code_simp

lemma strip_tool_denied_doc: "strip tool_denied_doc = tool_denied_doc"
  by code_simp

lemma strip_reason_doc: "strip reason_doc = reason_doc"
  by code_simp

lemma parse_input_decoded:
  assumes "strip (read_stdin inp) = raw" and "raw \<noteq> []" and "json_loads lib raw = Some data"
  shows "parse_input lib inp argv = normalize_data lib data"
  using assms by (simp add: parse_input_def)

lemmas chain_defs = normalize_data_def py_and_def py_or_def py_not_in_def

text \<open>A decoded document that is not an object always ends in an exception.\<close>

lemma normalize_data_not_object:
  assumes "\<not> is_dict data"
  shows "normalize_data lib data = Inl TypeError \<or> normalize_data lib data = Inl AttributeError"
  using assms
  by (cases data)
     (simp_all add: chain_defs claude_code_event_def session_end_event_def
        post_tool_use_event_def session_start_event_def)

lemma parse_input_not_object:
  assumes "strip (read_stdin inp) = raw" and "raw \<noteq> []"
    and "json_loads lib raw = Some data" and "\<not> is_dict data"
  shows "parse_input lib inp argv = Inl TypeError \<or> parse_input lib inp argv = Inl AttributeError"
  using normalize_data_not_object [OF assms(4)] parse_input_decoded [OF assms(1-3)]
  by simp

text \<open>
  Whatever \<^verbatim>\<open>parse_input\<close> returns is a dict of exactly the three keys
  \<^verbatim>\<open>platform\<close>, \<^verbatim>\<open>event\<close>, \<^verbatim>\<open>message\<close>, and its platform is one of the six
  tags of \<^verbatim>\<open>PLATFORM_LABELS\<close>.
\<close>

definition platform_tags :: "string set" where
  "platform_tags = {''claude_code'', ''copilot_cli'', ''cursor'', ''codex'', ''aider'', ''unknown''}"

definition well_formed :: "event_info \<Rightarrow> bool" where
  "well_formed e = (\<exists>p k m. e = mk_event p k m \<and> p \<in> platform_tags)"

lemma well_formed_mk_event: "p \<in> platform_tags \<Longrightarrow> well_formed (mk_event p k m)"
  by (auto simp: well_formed_def)

lemma claude_code_event_shape:
  "claude_code_event data = Inr e \<Longrightarrow> well_formed e"
  by (auto simp: claude_code_event_def and_then_Inr Let_def platform_tags_def intro!: well_formed_mk_event)

lemma session_end_event_shape:
  "session_end_event lib data = Inr e \<Longrightarrow> well_formed e"
  by (auto simp: session_end_event_def and_then_Inr platform_tags_def intro!: well_formed_mk_event)

lemma post_tool_use_event_shape:
  "post_tool_use_event lib data = Inr e \<Longrightarrow> well_formed e"
  by (auto simp: post_tool_use_event_def and_then_Inr platform_tags_def intro!: well_formed_mk_event)

lemma session_start_event_shape:
  "session_start_event lib data = Inr e \<Longrightarrow> well_formed e"
  by (auto simp: session_start_event_def and_then_Inr platform_tags_def intro!: well_formed_mk_event)

lemma hook_event_event_shape:
  "hook_event_event lib data h = Inr e \<Longrightarrow> well_formed e"
  by (auto simp: hook_event_event_def and_then_Inr platform_tags_def intro!: well_formed_mk_event)

lemma codex_event_shape:
  "codex_event data = Inr e \<Longrightarrow> well_formed e"
  by (auto simp: codex_event_def and_then_Inr platform_tags_def intro!: well_formed_mk_event)

lemma fallback_event_shape:
  "fallback_event lib data = Inr e \<Longrightarrow> well_formed e"
  by (auto simp: fallback_event_def and_then_Inr platform_tags_def intro!: well_formed_mk_event)

lemmas event_shapes = claude_code_event_shape session_end_event_shape post_tool_use_event_shape
  session_start_event_shape hook_event_event_shape codex_event_shape fallback_event_shape

lemma normalize_data_shape:
  "normalize_data lib data = Inr e \<Longrightarrow> well_formed e"
  by (auto simp: normalize_data_def and_then_Inr split: if_splits dest: event_shapes)

lemma parse_input_shape:
  assumes "parse_input lib inp argv = Inr e"
  shows "well_formed e"
proof (cases "strip (read_stdin inp) = []")
  case True
  with assms show ?thesis
    by (auto simp: parse_input_def platform_tags_def split: if_splits intro!: well_formed_mk_event)
next
  case False
  show ?thesis
  proof (cases "json_loads lib (strip (read_stdin inp))")
    case None
    with False assms show ?thesis
      by (auto simp: parse_input_def platform_tags_def intro!: well_formed_mk_event)
  next
    case (Some data)
    with False assms have "normalize_data lib data = Inr e"
      by (simp add: parse_input_def)
    then show ?thesis by (rule normalize_data_shape)
  qed
qed

lemma parse_input_keys:
  "parse_input lib inp argv = Inr e \<Longrightarrow> map fst e = [''platform'', ''event'', ''message'']"
  by (drule parse_input_shape) (auto simp: mk_event_def well_formed_def)

lemma parse_input_no_project:
  "parse_input lib inp argv = Inr e \<Longrightarrow> map_of e ''project'' = None"
  by (drule parse_input_shape) (auto simp: mk_event_def well_formed_def)

lemma parse_input_never_opencode:
  "parse_input lib inp argv = Inr e \<Longrightarrow> map_of e ''platform'' \<noteq> Some (JStr ''opencode'')"
  by (drule parse_input_shape) (auto simp: mk_event_def well_formed_def platform_tags_def)

text \<open>An empty \<^verbatim>\<open>hook_event_name\<close> is skipped (\<^verbatim>\<open>if hook_event:\<close>) and the
  payload reaches the fallback, whose event kind is \<^verbatim>\<open>notification\<close>.\<close>

lemma empty_hook_event_name_skipped:
  "normalize_data lib (JObj [(''hook_event_name'', JStr [])]) =
     Inr (mk_event ''unknown'' (JStr ''notification'')
            (JStr (json_dumps lib (JObj [(''hook_event_name'', JStr [])]))))"
  by (simp add: chain_defs fallback_event_def)

subsection \<open>Configuration and dispatch\<close>

lemma load_config_malformed:
  "json_loads lib text = None \<Longrightarrow> load_config lib (Content text # paths) = Inl JSONDecodeError"
  by simp

lemma load_config_absent:
  "load_config lib (replicate n NoFile) = Inr default_config"
  by (induction n) simp_all

lemma dispatch_one_stdout: "stdout (dispatch_one send ev t log) = stdout log"
  by (simp add: dispatch_one_def split: outcome.splits)

lemma dispatch_stdout: "stdout (dispatch send ev tasks log) = stdout log"
  by (induction tasks arbitrary: log) (simp_all add: dispatch_one_stdout)

lemma dispatch_stderr:
  "stderr (dispatch send ev tasks log) =
     stderr log @ concat (map (\<lambda>t. case send (fst t) (snd t) ev of Returned \<Rightarrow> []
        | Raised exc \<Rightarrow> [''[agent-notifier] '' @ fst t @ '' failed: '' @ exc]) tasks)"
  by (induction tasks arbitrary: log) (simp_all add: dispatch_one_def split: outcome.splits)

lemma dispatch_completed:
  "completed (dispatch send ev tasks log) =
     completed log @ map fst (filter (\<lambda>t. send (fst t) (snd t) ev = Returned) tasks)"
  by (induction tasks arbitrary: log) (simp_all add: dispatch_one_def split: outcome.splits)

lemma concat_map_one:
  assumes "distinct ts" and "t0 \<in> set ts" and "\<forall>t \<in> set ts. t \<noteq> t0 \<longrightarrow> f t = []"
  shows "concat (map f ts) = f t0"
  using assms
proof (induction ts)
  case Nil
  then show ?case by simp
next
  case (Cons t ts)
  show ?case
  proof (cases "t = t0")
    case True
    with Cons.prems have "\<forall>u \<in> set ts. f u = []" by auto
    then have "concat (map f ts) = []" by (induction ts) simp_all
    with True show ?thesis by simp
  next
    case False
    with Cons show ?thesis by auto
  qed
qed

lemma filter_neq_remove1: "distinct xs \<Longrightarrow> filter (\<lambda>t. t \<noteq> a) xs = remove1 a xs"
  by (induction xs) (auto simp: filter_id_conv)

lemma dict_items_keys: "fst ` set (dict_items kvs) \<subseteq> fst ` set kvs"
  by (induction kvs rule: dict_items.induct) auto

lemma dict_items_distinct: "distinct (map fst (dict_items kvs))"
proof (induction kvs rule: dict_items.induct)
  case 1
  then show ?case by simp
next
  case (2 k v kvs)
  have "k \<notin> fst ` set (dict_items (filter (\<lambda>kv. fst kv \<noteq> k) kvs))"
    using dict_items_keys [of "filter (\<lambda>kv. fst kv \<noteq> k) kvs"] by auto
  with 2 show ?case by simp
qed

lemma select_enabled_distinct:
  "select_enabled xs = Inr ys \<Longrightarrow> distinct (map fst xs) \<Longrightarrow>
     set ys \<subseteq> set xs \<and> distinct (map fst ys)"
proof (induction xs arbitrary: ys)
  case Nil
  then show ?case by simp
next
  case (Cons x xs)
  obtain name cfg where x: "x = (name, cfg)" by (cases x)
  from Cons.prems(1) x obtain en chosen where
    sel: "select_enabled xs = Inr chosen"
    and ys: "ys = (if truthy en \<and> name \<in> set CHANNEL_SENDERS then (name, cfg) # chosen else chosen)"
    by (auto simp: and_then_Inr)
  from Cons.IH [OF sel] Cons.prems(2)
  have ih: "set chosen \<subseteq> set xs" "distinct (map fst chosen)" by simp_all
  from Cons.prems(2) x have "name \<notin> fst ` set xs" by simp
  with ih(1) have "name \<notin> fst ` set chosen" by auto
  with ih ys x show ?case by auto
qed

lemma enabled_distinct:
  assumes "and_then (py_items channels) select_enabled = Inr enabled"
  shows "distinct (map fst enabled)"
proof -
  from assms obtain items where
    "py_items channels = Inr items" and sel: "select_enabled items = Inr enabled"
    by (auto simp: and_then_Inr)
  then have "distinct (map fst items)"
    by (cases channels) (auto simp: dict_items_distinct)
  with sel show ?thesis by (auto dest: select_enabled_distinct)
qed

text \<open>Once the input is parsed and the configuration read, \<^verbatim>\<open>main\<close> returns 0
  whatever the senders do.\<close>

lemma main_returns_0:
  assumes "parse_input lib inp argv = Inr event_info"
    and "load_config lib paths = Inr config"
    and "py_get config ''channels'' (JObj []) = Inr channels"
    and "and_then (py_items channels) select_enabled = Inr enabled"
  shows "fst (main lib send sched inp argv paths) = Inr 0"
  using assms by (simp add: main_def)

section \<open>Normalization is not total\<close>

text \<open>
  C1. The claim: for every input, also valid JSON that is not an object, \<^verbatim>\<open>parse_input\<close>
  returns an event and never raises. The program does raise there: with the text
  \<^verbatim>\<open>5\<close> on standard input, \<^verbatim>\<open>json.loads\<close> returns the number 5 and the first
  detector, \<^verbatim>\<open>"notification_type" in data\<close>, raises \<^verbatim>\<open>TypeError\<close>, which nothing
  catches (only \<^verbatim>\<open>JSONDecodeError\<close> is caught, on line 73).
\<close>

theorem parse_input_bare_number_raises:
  "parse_input (table_lib [(''5'', JInt 5)]) (Piped ''5'') [''notify.py''] = Inl TypeError"
  by code_simp

section \<open>No project on the event\<close>

text \<open>
  C2. The claim: every event carries a \<^verbatim>\<open>project\<close> field, resolved from a
  working-directory hint of the payload, then the process's directory, with a
  version-control query and the directory's base name behind it. \<^verbatim>\<open>parse_input\<close>
  builds dicts of three keys and nothing resolves a project: at the input of the
  repository's test \<^verbatim>\<open>test_aider_argv_has_project\<close> (a terminal as standard input,
  arguments \<^verbatim>\<open>Task done\<close>) the event has no \<^verbatim>\<open>project\<close> entry.
\<close>

theorem parse_input_aider_has_no_project:
  "parse_input (table_lib []) Tty [''notify.py'', ''Task'', ''done'']
     = Inr [(''platform'', JStr ''aider''), (''event'', JStr ''notification''),
            (''message'', JStr ''Task done'')]
   \<and> map_of [(''platform'', JStr ''aider''), (''event'', JStr ''notification''),
              (''message'', JStr ''Task done'')] ''project'' = None"
  by (simp add: parse_input_def mk_event_def)

section \<open>Detector priority\<close>

text \<open>
  C3, as the claim has it: every payload with both \<^verbatim>\<open>toolName\<close> and
  \<^verbatim>\<open>toolResult\<close> gets the event kind \<^verbatim>\<open>postToolUse\<close>. The
  \<^verbatim>\<open>notification_type\<close> detector runs before it: this payload has both keys and a
  \<^verbatim>\<open>notification_type\<close>, and its event kind is \<^verbatim>\<open>idle_prompt\<close>.
\<close>

theorem tool_keys_with_notification_type:
  "map_of typed_tool_payload ''toolName'' \<noteq> None
   \<and> map_of typed_tool_payload ''toolResult'' \<noteq> None
   \<and> parse_input (table_lib [(typed_tool_doc, JObj typed_tool_payload)]) (Piped typed_tool_doc)
        [''notify.py'']
      = Inr (mk_event ''claude_code'' (JStr ''idle_prompt'') (JStr idle_text))
   \<and> JStr ''idle_prompt'' \<noteq> JStr ''postToolUse''"
proof -
  have "parse_input (table_lib [(typed_tool_doc, JObj typed_tool_payload)]) (Piped typed_tool_doc)
        [''notify.py'']
      = Inr (mk_event ''claude_code'' (JStr ''idle_prompt'') (JStr idle_text))"
    by code_simp
  then show ?thesis by (simp add: typed_tool_payload_def)
qed

text \<open>
  C3, amended: for every payload with both \<^verbatim>\<open>toolName\<close> and \<^verbatim>\<open>toolResult\<close> and
  without \<^verbatim>\<open>notification_type\<close>, whose nested \<^verbatim>\<open>resultType\<close> is not a list or an
  object, \<^verbatim>\<open>parse_input\<close> returns platform \<^verbatim>\<open>copilot_cli\<close> with event kind exactly
  \<^verbatim>\<open>postToolUse\<close>, whether or not \<^verbatim>\<open>reason\<close> and \<^verbatim>\<open>source\<close> are there too.
\<close>

theorem post_tool_use_priority:
  assumes "strip (read_stdin inp) = raw" and "raw \<noteq> []"
    and "json_loads lib raw = Some (JObj kvs)"
    and "map_of kvs ''toolName'' = Some tool"
    and "map_of kvs ''toolResult'' = Some res"
    and "map_of kvs ''notification_type'' = None"
    and "result_type_of res = Inr rt" and "hashable rt"
  shows "\<exists>msg. parse_input lib inp argv =
           Inr (mk_event ''copilot_cli'' (JStr ''postToolUse'') (JStr msg))"
proof -
  obtain msg where msg:
    "dict_get (result_messages (py_str lib tool)) rt
       (''Tool '' @ apos @ py_str lib tool @ apos @ '' finished'') = Inr msg"
    using dict_get_hashable [OF assms(8), of "result_messages (py_str lib tool)"
        "''Tool '' @ apos @ py_str lib tool @ apos @ '' finished''"] by blast
  have "parse_input lib inp argv = normalize_data lib (JObj kvs)"
    using assms(1-3) by (rule parse_input_decoded)
  also have "\<dots> = post_tool_use_event lib (JObj kvs)"
    using assms(4-6) by (simp add: chain_defs)
  also have "\<dots> = Inr (mk_event ''copilot_cli'' (JStr ''postToolUse'') (JStr msg))"
    using assms(4,5,7) msg by (simp add: post_tool_use_event_def)
  finally show ?thesis by blast
qed

text \<open>The theorem at a payload that also has \<^verbatim>\<open>reason\<close> and \<^verbatim>\<open>source\<close>.\<close>

theorem post_tool_use_priority_witness:
  "map_of tool_denied_payload ''reason'' \<noteq> None \<and> map_of tool_denied_payload ''source'' \<noteq> None
   \<and> (\<exists>msg. parse_input (table_lib [(tool_denied_doc, JObj tool_denied_payload)])
          (Piped tool_denied_doc) [''notify.py'']
        = Inr (mk_event ''copilot_cli'' (JStr ''postToolUse'') (JStr msg)))"
  using post_tool_use_priority [of "Piped tool_denied_doc" tool_denied_doc
      "table_lib [(tool_denied_doc, JObj tool_denied_payload)]" tool_denied_payload
      "JStr ''bash''" "JObj [(''resultType'', JStr ''denied'')]" "JStr ''denied''"
      "[''notify.py'']"]
  by (simp add: strip_tool_denied_doc table_lib_def result_type_of_def)
     (simp add: tool_denied_doc_def tool_denied_payload_def)

text \<open>
  C4, as the claim has it: every payload with \<^verbatim>\<open>reason\<close> and without \<^verbatim>\<open>toolName\<close>
  gets platform \<^verbatim>\<open>copilot_cli\<close> and event kind \<^verbatim>\<open>sessionEnd\<close>. Again the
  \<^verbatim>\<open>notification_type\<close> detector runs first: this payload has a \<^verbatim>\<open>reason\<close>, no
  \<^verbatim>\<open>toolName\<close>, and comes out as platform \<^verbatim>\<open>claude_code\<close> with event kind
  \<^verbatim>\<open>permission_prompt\<close>.
\<close>

theorem reason_with_notification_type:
  "map_of typed_reason_payload ''reason'' \<noteq> None
   \<and> map_of typed_reason_payload ''toolName'' = None
   \<and> parse_input (table_lib [(typed_reason_doc, JObj typed_reason_payload)])
        (Piped typed_reason_doc) [''notify.py'']
      = Inr (mk_event ''claude_code'' (JStr ''permission_prompt'') (JStr permission_text))
   \<and> ''claude_code'' \<noteq> ''copilot_cli''
   \<and> JStr ''permission_prompt'' \<noteq> JStr ''sessionEnd''"
proof -
  have "parse_input (table_lib [(typed_reason_doc, JObj typed_reason_payload)])
        (Piped typed_reason_doc) [''notify.py'']
      = Inr (mk_event ''claude_code'' (JStr ''permission_prompt'') (JStr permission_text))"
    by code_simp
  then show ?thesis by (simp add: typed_reason_payload_def)
qed

text \<open>
  C4, amended: for every payload with \<^verbatim>\<open>reason\<close>, without \<^verbatim>\<open>toolName\<close> and without
  \<^verbatim>\<open>notification_type\<close>, whose reason is not a list or an object, \<^verbatim>\<open>parse_input\<close>
  returns platform \<^verbatim>\<open>copilot_cli\<close> (so never \<^verbatim>\<open>unknown\<close>) with event kind
  \<^verbatim>\<open>sessionEnd\<close>.
\<close>

theorem session_end_platform:
  assumes "strip (read_stdin inp) = raw" and "raw \<noteq> []"
    and "json_loads lib raw = Some (JObj kvs)"
    and "map_of kvs ''reason'' = Some reason"
    and "map_of kvs ''toolName'' = None"
    and "map_of kvs ''notification_type'' = None"
    and "hashable reason"
  shows "\<exists>msg. parse_input lib inp argv =
           Inr (mk_event ''copilot_cli'' (JStr ''sessionEnd'') (JStr msg))"
proof -
  obtain msg where msg:
    "dict_get reason_messages reason (''Session ended ('' @ py_str lib reason @ '')'') = Inr msg"
    using dict_get_hashable [OF assms(7), of reason_messages
        "''Session ended ('' @ py_str lib reason @ '')''"] by blast
  have "parse_input lib inp argv = normalize_data lib (JObj kvs)"
    using assms(1-3) by (rule parse_input_decoded)
  also have "\<dots> = session_end_event lib (JObj kvs)"
    using assms(4-6) by (simp add: chain_defs)
  also have "\<dots> = Inr (mk_event ''copilot_cli'' (JStr ''sessionEnd'') (JStr msg))"
    using assms(4) msg by (simp add: session_end_event_def)
  finally show ?thesis by blast
qed

text \<open>The theorem at the payload \<^verbatim>\<open>{"reason": "complete"}\<close>.\<close>

theorem session_end_platform_witness:
  "\<exists>msg. parse_input (table_lib [(reason_doc, JObj reason_payload)]) (Piped reason_doc)
      [''notify.py'']
    = Inr (mk_event ''copilot_cli'' (JStr ''sessionEnd'') (JStr msg))"
  using session_end_platform [of "Piped reason_doc" reason_doc
      "table_lib [(reason_doc, JObj reason_payload)]" reason_payload "JStr ''complete''"
      "[''notify.py'']"]
  by (simp add: strip_reason_doc table_lib_def) (simp add: reason_doc_def reason_payload_def)

section \<open>The \<^verbatim>\<open>notification_type\<close> detector\<close>

text \<open>
  C5. For every payload (a decoded JSON object) with a \<^verbatim>\<open>notification_type\<close> key,
  \<^verbatim>\<open>parse_input\<close> returns platform \<^verbatim>\<open>claude_code\<close> with the type as event kind, and
  the message is: the fixed completion text for \<^verbatim>\<open>idle_prompt\<close> and the fixed
  permission text for \<^verbatim>\<open>permission_prompt\<close>, whatever \<^verbatim>\<open>message\<close> the payload has;
  for any other type, the payload's message when one is given, otherwise the type itself.
  A message is given when the key is there with a value that is not empty (Python's
  truth value; \<^verbatim>\<open>data.get("message", "")\<close> makes a missing key the empty string).
\<close>

theorem notification_type_message:
  assumes "strip (read_stdin inp) = raw" and "raw \<noteq> []"
    and "json_loads lib raw = Some (JObj kvs)"
    and "map_of kvs ''notification_type'' = Some ntype"
  shows "parse_input lib inp argv =
     Inr (mk_event ''claude_code'' ntype
        (if ntype = JStr ''idle_prompt'' then JStr idle_text
         else if ntype = JStr ''permission_prompt'' then JStr permission_text
         else (case map_of kvs ''message'' of
                 None \<Rightarrow> ntype
               | Some msg \<Rightarrow> if truthy msg then msg else ntype)))"
proof -
  have "parse_input lib inp argv = normalize_data lib (JObj kvs)"
    using assms(1-3) by (rule parse_input_decoded)
  also have "\<dots> = claude_code_event (JObj kvs)"
    using assms(4) by (simp add: normalize_data_def)
  finally show ?thesis
    using assms(4) by (simp add: claude_code_event_def split: option.splits)
qed

text \<open>
  The theorem at the scenario of the specification (\<^verbatim>\<open>idle_prompt\<close> with the message
  \<^verbatim>\<open>Done\<close>: the fixed text wins) and at a type the program does not know (the
  payload's message is kept).
\<close>

theorem notification_type_message_witness:
  "parse_input (table_lib [(idle_done_doc, JObj idle_done_payload)]) (Piped idle_done_doc)
     [''notify.py'']
     = Inr (mk_event ''claude_code'' (JStr ''idle_prompt'') (JStr idle_text))
   \<and> idle_text \<noteq> ''Done''
   \<and> parse_input (table_lib [(custom_type_doc, JObj custom_type_payload)]) (Piped custom_type_doc)
     [''notify.py'']
     = Inr (mk_event ''claude_code'' (JStr ''auth_success'') (JStr ''Signed in''))"
proof -
  have a: "parse_input (table_lib [(idle_done_doc, JObj idle_done_payload)]) (Piped idle_done_doc)
     [''notify.py''] = Inr (mk_event ''claude_code'' (JStr ''idle_prompt'') (JStr idle_text))"
    using notification_type_message [of "Piped idle_done_doc" idle_done_doc
        "table_lib [(idle_done_doc, JObj idle_done_payload)]" idle_done_payload
        "JStr ''idle_prompt''" "[''notify.py'']"]
    by (simp add: strip_idle_done_doc table_lib_def) (simp add: idle_done_doc_def idle_done_payload_def)
  have b: "parse_input (table_lib [(custom_type_doc, JObj custom_type_payload)])
     (Piped custom_type_doc) [''notify.py'']
     = Inr (mk_event ''claude_code'' (JStr ''auth_success'') (JStr ''Signed in''))"
    using notification_type_message [of "Piped custom_type_doc" custom_type_doc
        "table_lib [(custom_type_doc, JObj custom_type_payload)]" custom_type_payload
        "JStr ''auth_success''" "[''notify.py'']"]
    by (simp add: strip_custom_type_doc table_lib_def)
       (simp add: custom_type_doc_def custom_type_payload_def)
  have c: "idle_text \<noteq> ''Done''"
    by (simp add: idle_text_def)
  from a b c show ?thesis by simp
qed

section \<open>No detector for opencode\<close>

text \<open>
  C6. The claim: a payload that names the platform \<^verbatim>\<open>opencode\<close> and has an idle
  \<^verbatim>\<open>event_type\<close> is normalized to platform \<^verbatim>\<open>opencode\<close> with its completion message.
  \<^verbatim>\<open>parse_input\<close> has no such detector: the payload of the repository's test
  \<^verbatim>\<open>test_opencode_session_idle\<close> falls through to the last \<^verbatim>\<open>return\<close> and comes
  out as platform \<^verbatim>\<open>unknown\<close> with the payload's own message.
\<close>

theorem parse_input_opencode_falls_through:
  "parse_input (table_lib [(opencode_doc, opencode_payload)]) (Piped opencode_doc) [''notify.py'']
     = Inr (mk_event ''unknown'' (JStr ''notification'') (JStr ''Session completed''))"
  by code_simp

section \<open>An empty event kind\<close>

text \<open>
  C7. The claim: the event kind is always a non-empty string, also when
  \<^verbatim>\<open>notification_type\<close> is the empty string. The first detector tests only that the
  key is there and passes its value on as the event kind: for the payload
  \<^verbatim>\<open>{"notification_type": ""}\<close> the event kind is the empty string (and so is the
  message).
\<close>

theorem parse_input_empty_notification_type:
  "parse_input (table_lib [(empty_type_doc, empty_type_payload)]) (Piped empty_type_doc)
     [''notify.py'']
     = Inr (mk_event ''claude_code'' (JStr []) (JStr []))"
  by code_simp

section \<open>Title and body\<close>

text \<open>
  What the two formatting functions compute, for every event dict: the title ends in the
  label of a listed platform tag and in the tag itself otherwise; the body is the
  message, or the event kind when the message is empty, whatever \<^verbatim>\<open>project\<close> the
  event has.
\<close>

lemma format_title_label:
  assumes "map_of e ''platform'' = Some (JStr p)"
  shows "format_title lib e =
           Inr (title_prefix @
             (if p = ''claude_code'' then ''Claude Code''
              else if p = ''copilot_cli'' then ''GitHub Copilot CLI''
              else if p = ''cursor'' then ''Cursor''
              else if p = ''codex'' then ''Codex''
              else if p = ''aider'' then ''Aider''
              else if p = ''unknown'' then ''AI Agent''
              else p))"
  using assms by (simp add: format_title_def PLATFORM_LABELS_def)

lemma format_body_message_or_event:
  assumes "map_of e ''message'' = Some m" and "map_of e ''event'' = Some k"
  shows "format_body e = Inr (if truthy m then m else k)"
  using assms by (simp add: format_body_def)

text \<open>
  C8. The claim: the title embeds a human label for the platform, with
  \<^verbatim>\<open>AI Agent\<close> for a tag without a label, and the body is the message, or the event
  kind when the message is empty, prefixed with the bracketed project when the event
  has a non-empty one. \<^verbatim>\<open>_format_body\<close> never reads \<^verbatim>\<open>project\<close>: for the event of
  the repository's test \<^verbatim>\<open>TestFormatBody.test_with_project\<close> (message
  \<^verbatim>\<open>Task completed\<close>, event \<^verbatim>\<open>idle\<close>, project \<^verbatim>\<open>my-app\<close>) the body is the bare
  message, not \<^verbatim>\<open>[my-app] Task completed\<close>, and for the event of
  \<^verbatim>\<open>test_falls_back_to_event_when_no_message\<close> it is the bare event kind. And
  \<^verbatim>\<open>PLATFORM_LABELS\<close> has no label for the platform \<^verbatim>\<open>opencode\<close>: for the event of
  \<^verbatim>\<open>TestFormatTitle.test_opencode_platform\<close> the title ends in the raw tag
  \<^verbatim>\<open>opencode\<close>, neither a human label nor \<^verbatim>\<open>AI Agent\<close>.
\<close>

theorem format_body_drops_project:
  "format_body [(''message'', JStr ''Task completed''), (''event'', JStr ''idle''),
                (''project'', JStr ''my-app'')]
     = Inr (JStr ''Task completed'')
   \<and> ''Task completed'' \<noteq> ''[my-app] Task completed''
   \<and> format_body [(''message'', JStr []), (''event'', JStr ''idle_prompt''),
                  (''project'', JStr ''proj'')]
     = Inr (JStr ''idle_prompt'')
   \<and> ''idle_prompt'' \<noteq> ''[proj] idle_prompt''
   \<and> format_title (table_lib []) [(''platform'', JStr ''opencode'')]
     = Inr (title_prefix @ ''opencode'')
   \<and> ''opencode'' \<noteq> ''OpenCode'' \<and> ''opencode'' \<noteq> ''AI Agent''"
  by (simp add: format_body_def format_title_def PLATFORM_LABELS_def)

section \<open>Dispatch isolation\<close>

text \<open>
  C9. Dispatch isolation: when, of the enabled channels, the sender of exactly one
  raises an exception (with text \<open>exc\<close>) and the others return, then, however the pool
  orders the tasks, every other sender runs to its end, standard error gets the one
  line \<^verbatim>\<open>[agent-notifier] <name> failed: <exc>\<close>, standard output gets nothing, and
  \<^verbatim>\<open>main\<close> returns 0 without raising.
\<close>

theorem dispatch_isolation:
  assumes "parse_input lib inp argv = Inr event_info"
    and "load_config lib paths = Inr config"
    and "py_get config ''channels'' (JObj []) = Inr channels"
    and "and_then (py_items channels) select_enabled = Inr enabled"
    and "mset (sched enabled) = mset enabled"
    and "(name, cfg) \<in> set enabled"
    and "send name cfg event_info = Raised exc"
    and "\<forall>t \<in> set enabled. t \<noteq> (name, cfg) \<longrightarrow> send (fst t) (snd t) event_info = Returned"
  shows "\<exists>log. main lib send sched inp argv paths = (Inr 0, log)
           \<and> stdout log = []
           \<and> stderr log = [''[agent-notifier] '' @ name @ '' failed: '' @ exc]
           \<and> mset (completed log) = mset (map fst enabled) - {#name#}"
proof -
  let ?tasks = "sched enabled"
  let ?log = "dispatch send event_info ?tasks empty_log"
  let ?diag = "\<lambda>t. case send (fst t) (snd t) event_info of Returned \<Rightarrow> []
        | Raised exc \<Rightarrow> [''[agent-notifier] '' @ fst t @ '' failed: '' @ exc]"
  have dist_en: "distinct enabled"
    using enabled_distinct [OF assms(4)] by (rule distinct_map [THEN iffD1, THEN conjunct1])
  have set_eq: "set ?tasks = set enabled"
    using assms(5) by (rule mset_eq_setD)
  have dist: "distinct ?tasks"
    using assms(5) dist_en by (metis mset_eq_imp_distinct_iff)
  have ne: "enabled \<noteq> []"
    using assms(6) by auto
  have main: "main lib send sched inp argv paths = (Inr 0, ?log)"
    using assms(1-4) ne by (simp add: main_def)
  have out: "stdout ?log = []"
    by (simp add: dispatch_stdout empty_log_def)
  have "concat (map ?diag ?tasks) = ?diag (name, cfg)"
    using dist assms(6,8) set_eq by (intro concat_map_one) auto
  then have err: "stderr ?log = [''[agent-notifier] '' @ name @ '' failed: '' @ exc]"
    using assms(7) by (simp add: dispatch_stderr empty_log_def)
  have flt: "filter (\<lambda>t. send (fst t) (snd t) event_info = Returned) ?tasks
      = filter (\<lambda>t. t \<noteq> (name, cfg)) ?tasks"
    using assms(7,8) set_eq by (intro filter_cong) auto
  have "filter (\<lambda>t. t \<noteq> (name, cfg)) ?tasks = remove1 (name, cfg) ?tasks"
    using dist by (rule filter_neq_remove1)
  then have rest: "mset (filter (\<lambda>t. t \<noteq> (name, cfg)) ?tasks) = mset enabled - {#(name, cfg)#}"
    using assms(5) by simp
  have sub: "{#(name, cfg)#} \<subseteq># mset enabled"
    using assms(6) by simp
  have "mset (map fst (filter (\<lambda>t. t \<noteq> (name, cfg)) ?tasks))
      = image_mset fst (mset enabled - {#(name, cfg)#})"
    by (simp only: mset_map rest)
  also have "\<dots> = image_mset fst (mset enabled) - image_mset fst {#(name, cfg)#}"
    using sub by (rule image_mset_Diff)
  also have "\<dots> = mset (map fst enabled) - {#name#}"
    by simp
  finally have "mset (map fst (filter (\<lambda>t. t \<noteq> (name, cfg)) ?tasks))
      = mset (map fst enabled) - {#name#}" .
  then have comp: "mset (completed ?log) = mset (map fst enabled) - {#name#}"
    by (simp add: dispatch_completed empty_log_def flt)
  from main out err comp show ?thesis by blast
qed

text \<open>
  The theorem at a run with no configuration file (the default enables \<^verbatim>\<open>sound\<close> and
  \<^verbatim>\<open>macos_notification\<close>), a \<^verbatim>\<open>sound\<close> sender that raises, and a pool that takes
  the tasks in reverse order.
\<close>

theorem dispatch_isolation_witness:
  "\<exists>log. main (table_lib []) failing_sound rev Tty [''notify.py''] [NoFile, NoFile] = (Inr 0, log)
     \<and> stdout log = []
     \<and> stderr log = [''[agent-notifier] sound failed: [Errno 2] No such file or directory: afplay'']
     \<and> mset (completed log) = {#''macos_notification''#}"
proof -
  let ?sound = "JObj [(''enabled'', JBool True), (''file'', JStr ''/System/Library/Sounds/Glass.aiff'')]"
  let ?alert = "JObj [(''enabled'', JBool True)]"
  let ?channels = "JObj [(''sound'', ?sound), (''macos_notification'', ?alert)]"
  let ?enabled = "[(''sound'', ?sound), (''macos_notification'', ?alert)]"
  let ?event = "mk_event ''unknown'' (JStr ''notification'') (JStr [])"
  have h1: "parse_input (table_lib []) Tty [''notify.py''] = Inr ?event"
    by (simp add: parse_input_def)
  have h2: "load_config (table_lib []) [NoFile, NoFile] = Inr default_config"
    by simp
  have h3: "py_get default_config ''channels'' (JObj []) = Inr ?channels"
    by (simp add: default_config_def)
  have h4: "and_then (py_items ?channels) select_enabled = Inr ?enabled"
    by (simp add: CHANNEL_SENDERS_def)
  have h5: "mset (rev ?enabled) = mset ?enabled"
    by simp
  have h6: "(''sound'', ?sound) \<in> set ?enabled"
    by simp
  have h7: "failing_sound ''sound'' ?sound ?event
      = Raised ''[Errno 2] No such file or directory: afplay''"
    by (simp add: failing_sound_def)
  have h8: "\<forall>t \<in> set ?enabled. t \<noteq> (''sound'', ?sound) \<longrightarrow>
      failing_sound (fst t) (snd t) ?event = Returned"
    by (simp add: failing_sound_def)
  from dispatch_isolation [where sched = rev and send = failing_sound, OF h1 h2 h3 h4 h5 h6 h7 h8]
  show ?thesis
    by simp
qed

section \<open>A malformed configuration file ends the process with status 1\<close>

text \<open>
  C10. The claim: nothing is fatal to the process; in particular loading the
  configuration never ends it with a status other than 0, whatever is on disk. With no
  file at any path \<^verbatim>\<open>load_config\<close> does return the default (\<open>load_config_absent\<close>), but
  a file that is there and is not JSON makes \<^verbatim>\<open>json.load\<close> raise, nothing in
  \<^verbatim>\<open>load_config\<close> or \<^verbatim>\<open>main\<close> catches it, and the process ends with status 1:
  here the first path holds the text \<^verbatim>\<open>{\<close>.
\<close>

theorem main_malformed_config_exits_1:
  "main (table_lib []) send sched Tty [''notify.py''] [Content ''{'', NoFile]
     = (Inl JSONDecodeError, empty_log)
   \<and> exit_status (fst (main (table_lib []) send sched Tty [''notify.py''] [Content ''{'', NoFile])) = 1"
  by (simp add: main_def parse_input_def table_lib_def)

end
